theory Spec2Isabelle
  imports Complex_Main
begin

section \<open>JavaScript values used by the presentation layer\<close>

text \<open>
  Event payloads reach the frontend as JSON, so every number a listener receives is a
  finite double; it is represented by its value, a \<^typ>\<open>real\<close>.  The percentage
  computations divide and multiply such numbers, and every arithmetic result is rounded
  to the nearest double (ties to even) as IEEE 754 prescribes; a result too large for a
  double is an infinity, and \<open>x / 0\<close> is \<open>Infinity\<close>, \<open>-Infinity\<close> or \<open>NaN\<close> and does not
  throw.  The sign of zero is not modelled.
\<close>

datatype jsnum = Num real | PosInf | NegInf | NaN

text \<open>To the nearest integer, ties to the even one.\<close>

definition round_even :: "real \<Rightarrow> int" where
  "round_even x =
     (let f = \<lfloor>x\<rfloor>; r = x - of_int f
      in if r < 1 / 2 then f else if 1 / 2 < r then f + 1 else if even f then f else f + 1)"

definition pow2 :: "int \<Rightarrow> real" where
  "pow2 e = (if 0 \<le> e then 2 ^ nat e else 1 / 2 ^ nat (- e))"

text \<open>The binary exponent of a positive number \<open>a\<close>: the \<open>e\<close> with \<open>2^e \<le> a < 2^(e+1)\<close>,
  kept within the exponent range \<open>-1022 .. 1023\<close> of a double.\<close>

function binexp_up :: "real \<Rightarrow> int \<Rightarrow> int" where
  "binexp_up a e = (if 2 \<le> a \<and> e < 1023 then binexp_up (a / 2) (e + 1) else e)"
  by pat_completeness auto
termination
  by (relation "measure (\<lambda>(a, e). nat (1023 - e))") auto

function binexp_down :: "real \<Rightarrow> int \<Rightarrow> int" where
  "binexp_down a e = (if a < 1 \<and> - 1022 < e then binexp_down (a * 2) (e - 1) else e)"
  by pat_completeness auto
termination
  by (relation "measure (\<lambda>(a, e). nat (e + 1022))") auto

declare binexp_up.simps [simp del]

declare binexp_down.simps [simp del]

definition binexp :: "real \<Rightarrow> int" where
  "binexp a = (if 2 \<le> a then binexp_up a 0 else binexp_down a 0)"

text \<open>Rounding a real number to a double: 53 significant bits at the number's binary
  exponent (fewer below \<open>2^-1022\<close>), overflow to an infinity from \<open>2^1024\<close> on.\<close>

definition fl :: "real \<Rightarrow> jsnum" where
  "fl x =
     (if x = 0 then Num 0
      else
        (let a = \<bar>x\<bar>;
             u = pow2 (binexp a - 52);
             r = of_int (round_even (a / u)) * u
         in if 2 ^ 1024 \<le> r then (if 0 < x then PosInf else NegInf)
            else Num (if 0 < x then r else - r)))"

text \<open>\<open>a / b\<close> for finite operands.\<close>

definition js_div :: "real \<Rightarrow> real \<Rightarrow> jsnum" where
  "js_div a b =
     (if b = 0 then (if a = 0 then NaN else if 0 < a then PosInf else NegInf)
      else fl (a / b))"

text \<open>\<open>x * c\<close> for a finite constant \<open>c\<close>.\<close>

fun js_mul :: "jsnum \<Rightarrow> real \<Rightarrow> jsnum" where
  "js_mul (Num a) c = fl (a * c)"
| "js_mul PosInf c = (if 0 < c then PosInf else if c < 0 then NegInf else NaN)"
| "js_mul NegInf c = (if 0 < c then NegInf else if c < 0 then PosInf else NaN)"
| "js_mul NaN c = NaN"

text \<open>\<open>Math.round\<close>: the nearest integer, a tie going upwards; exact on a double.  The
  non-finite values are kept.\<close>

fun Math_round :: "jsnum \<Rightarrow> jsnum" where
  "Math_round (Num x) = Num (of_int (round x))"
| "Math_round PosInf = PosInf"
| "Math_round NegInf = NegInf"
| "Math_round NaN = NaN"

text \<open>Truthiness of a finite number: only \<open>0\<close> is falsy.\<close>

definition js_truthy :: "real \<Rightarrow> bool" where
  "js_truthy x = (x \<noteq> 0)"

text \<open>
  A call of \<open>invoke\<close> returns a promise that the backend settles: it resolves with a
  value or rejects.  The backend is not part of the frontend sources, so its answer is
  a parameter of every handler that awaits one.
\<close>

datatype 'a promise = Resolved 'a | Rejected

datatype command =
    Is_model_ready
  | Download_whisper_model
  | Get_available_models
  | Set_model_size string
  | Download_model_size string
  | Set_audio_device "string option"

text \<open>How an \<open>async\<close> handler ends: it returns, or the rejection of an awaited
  \<open>invoke\<close> propagates out of it.\<close>

datatype completion = Returned | Threw

section \<open>App.tsx: routing\<close>

datatype surface = Settings_surface | Overlay_surface

definition App :: "string \<Rightarrow> surface" where
  "App pathname =
     (let isSettingsWindow = (pathname = ''/settings'')
      in if isSettingsWindow then Settings_surface else Overlay_surface)"

section \<open>Overlay.tsx\<close>

datatype RecordingState = Idle | Recording | Processing | Done | Error

record progress =
  downloaded :: real
  total :: real

text \<open>The four \<open>useState\<close> cells of \<open>Overlay\<close>.\<close>

record overlay =
  state :: RecordingState
  modelReady :: bool
  audioLevel :: real
  downloadProgress :: "progress option"

definition initial_overlay :: overlay where
  "initial_overlay =
     \<lparr>state = Idle, modelReady = False, audioLevel = 0, downloadProgress = None\<rparr>"

text \<open>The seven events \<open>Overlay\<close> listens to, with their payloads.\<close>

datatype event =
    Download_progress real real
  | Recording_started
  | Audio_level real
  | Recording_stopped
  | Transcription_started
  | Transcription_complete string
  | Transcription_error string

text \<open>The listeners registered in the second effect, one equation per \<open>listen\<close> call.
  The two updates of the \<open>download-progress\<close> listener are applied in order.\<close>

fun overlay_listener :: "event \<Rightarrow> overlay \<Rightarrow> overlay" where
  "overlay_listener (Download_progress d t) s =
     (let s1 = s\<lparr>downloadProgress := Some \<lparr>downloaded = d, total = t\<rparr>\<rparr>
      in if t \<le> d then s1\<lparr>modelReady := True, downloadProgress := None\<rparr> else s1)"
| "overlay_listener Recording_started s = s\<lparr>state := Recording, audioLevel := 0\<rparr>"
| "overlay_listener (Audio_level l) s = s\<lparr>audioLevel := l\<rparr>"
| "overlay_listener Recording_stopped s = s\<lparr>state := Processing, audioLevel := 0\<rparr>"
| "overlay_listener Transcription_started s = s\<lparr>state := Processing\<rparr>"
| "overlay_listener (Transcription_complete txt) s = s\<lparr>state := Done\<rparr>"
| "overlay_listener (Transcription_error reason) s = s\<lparr>state := Error\<rparr>"

text \<open>A sequence of events, delivered in order; \<open>states_after\<close> lists the recording
  state after each of them.\<close>

fun run_events :: "overlay \<Rightarrow> event list \<Rightarrow> overlay" where
  "run_events s [] = s"
| "run_events s (e # es) = run_events (overlay_listener e s) es"

fun states_after :: "overlay \<Rightarrow> event list \<Rightarrow> RecordingState list" where
  "states_after s [] = []"
| "states_after s (e # es) =
     state (overlay_listener e s) # states_after (overlay_listener e s) es"

text \<open>The events at which the test \<open>downloaded >= total\<close> of the \<open>download-progress\<close>
  listener holds.\<close>

fun completes :: "event \<Rightarrow> bool" where
  "completes (Download_progress d t) = (t \<le> d)"
| "completes e = False"

text \<open>The progress events of a download job report a downloaded count that does not
  exceed the total; the terminal event of a job reports the total itself.\<close>

fun within_total :: "event \<Rightarrow> bool" where
  "within_total (Download_progress d t) = (d \<le> t)"
| "within_total e = True"

fun terminal :: "event \<Rightarrow> bool" where
  "terminal (Download_progress d t) = (d = t)"
| "terminal e = False"

text \<open>The first effect, run once on mount: query \<open>is_model_ready\<close>, store the answer and
  start the download when the answer is \<open>false\<close>.  A rejected query has no handler: nothing
  is stored and nothing more is invoked.  The result is the new state and the commands
  invoked, in order.\<close>

definition overlay_mount :: "bool promise \<Rightarrow> overlay \<Rightarrow> overlay \<times> command list" where
  "overlay_mount answer s =
     (case answer of
        Rejected \<Rightarrow> (s, [Is_model_ready])
      | Resolved ready \<Rightarrow>
          (s\<lparr>modelReady := ready\<rparr>,
           Is_model_ready # (if \<not> ready then [Download_whisper_model] else [])))"

text \<open>The percentage of the download bar, computed when \<open>!modelReady && downloadProgress\<close>.\<close>

definition overlay_percent :: "progress \<Rightarrow> jsnum" where
  "overlay_percent p =
     (if js_truthy (total p)
      then Math_round (js_mul (js_div (downloaded p) (total p)) 100)
      else Num 0)"

text \<open>What \<open>Overlay\<close> renders: the download bar with its percentage, the visualizer
  with the recording state and the audio level, or the empty frame.\<close>

datatype view = Download_bar jsnum | Visualizer RecordingState real | Empty_frame

definition overlay_render :: "overlay \<Rightarrow> view" where
  "overlay_render s =
     (case downloadProgress s of
        Some p \<Rightarrow>
          if \<not> modelReady s then Download_bar (overlay_percent p)
          else if state s \<noteq> Idle then Visualizer (state s) (audioLevel s)
          else Empty_frame
      | None \<Rightarrow>
          if state s \<noteq> Idle then Visualizer (state s) (audioLevel s) else Empty_frame)"

subsection \<open>StateVisualizer\<close>

record bar_style =
  height :: real
  opacity :: real

text \<open>\<open>getBarStyle\<close>, with the component's \<open>state\<close>, \<open>level\<close> and \<open>tick\<close> as arguments.
  The audio level is any number; the tick counts animation frames.  The geometry of
  the bars is taken over the reals.\<close>

definition getBarStyle :: "RecordingState \<Rightarrow> real \<Rightarrow> nat \<Rightarrow> nat \<Rightarrow> bar_style" where
  "getBarStyle st level tick index =
     (if st = Recording then
        (let wave = sin (real tick / 8 + real index * 0.7) * 0.4
                    + cos (real tick / 12 + real index * 1.1) * 0.3;
             baseHeight = 0.3 + wave * 0.5;
             h = 8 + (level * (baseHeight + 0.5) * 28)
         in \<lparr>height = max 8 (min 36 h), opacity = 0.85\<rparr>)
      else if st = Processing then
        (let pulse = sin (real tick / 15 + real index * 0.3) * 0.5 + 0.5
         in \<lparr>height = 6 + pulse * 4, opacity = 0.5 + pulse * 0.3\<rparr>)
      else \<lparr>height = 0, opacity = 0\<rparr>)"

subsection \<open>Everything that changes what the overlay shows\<close>

text \<open>
  Besides the event listeners the overlay has one timer, the animation frame of
  \<open>StateVisualizer\<close>, whose callback only increments the component's own \<open>tick\<close>.  The
  visualizer is mounted while the overlay renders it; a fresh mount starts at tick \<open>0\<close>.
\<close>

definition visualizer_mounted :: "overlay \<Rightarrow> bool" where
  "visualizer_mounted s = (case overlay_render s of Visualizer st l \<Rightarrow> True | _ \<Rightarrow> False)"

record ui =
  ov :: overlay
  tick_count :: nat

datatype step = Backend event | Animation_frame

fun ui_step :: "step \<Rightarrow> ui \<Rightarrow> ui" where
  "ui_step (Backend e) u =
     (let s' = overlay_listener e (ov u)
      in \<lparr>ov = s',
          tick_count =
            (if visualizer_mounted (ov u) \<and> visualizer_mounted s' then tick_count u else 0)\<rparr>)"
| "ui_step Animation_frame u =
     (if visualizer_mounted (ov u) then u\<lparr>tick_count := tick_count u + 1\<rparr> else u)"

fun ui_steps :: "ui \<Rightarrow> step list \<Rightarrow> ui" where
  "ui_steps u [] = u"
| "ui_steps u (x # xs) = ui_steps (ui_step x u) xs"

section \<open>Settings.tsx\<close>

text \<open>\<open>ModelInfo\<close> is the triple (id, label, isDownloaded).\<close>

type_synonym ModelInfo = "string \<times> string \<times> bool"

record DownloadProgress = progress +
  size' :: string

record settings =
  devices :: "string list"
  currentDevice :: "string option"
  models :: "ModelInfo list"
  selectedModel :: string
  micPermission :: bool
  accessibilityPermission :: bool
  downloading :: "string option"
  downloadProgress' :: "DownloadProgress option"

definition initial_settings :: settings where
  "initial_settings =
     \<lparr>devices = [], currentDevice = None, models = [], selectedModel = ''small'',
      micPermission = True, accessibilityPermission = False, downloading = None,
      downloadProgress' = None\<rparr>"

text \<open>The \<open>model-download-progress\<close> listener.  At \<open>downloaded >= total\<close> it clears the
  progress and re-reads the model list; \<open>answer\<close> is what \<open>get_available_models\<close> then
  returns (a rejection is logged and changes nothing).\<close>

definition settings_listener ::
  "string \<times> real \<times> real \<Rightarrow> ModelInfo list promise \<Rightarrow> settings \<Rightarrow> settings \<times> command list"
where
  "settings_listener payload answer s =
     (case payload of (sz, d, t) \<Rightarrow>
        (let s1 = s\<lparr>downloadProgress' := Some \<lparr>downloaded = d, total = t, size' = sz\<rparr>\<rparr>
         in if t \<le> d then
              (let s2 = s1\<lparr>downloading := None, downloadProgress' := None\<rparr>
               in (case answer of Resolved ms \<Rightarrow> s2\<lparr>models := ms\<rparr> | Rejected \<Rightarrow> s2,
                   [Get_available_models]))
            else (s1, [])))"

text \<open>\<open>handleDeviceChange\<close>; \<open>answer\<close> settles the awaited \<open>set_audio_device\<close>.\<close>

definition handleDeviceChange ::
  "string \<Rightarrow> unit promise \<Rightarrow> settings \<Rightarrow> settings \<times> command list \<times> completion"
where
  "handleDeviceChange deviceName answer s =
     (let device = (if deviceName = ''default'' then None else Some deviceName)
      in case answer of
           Rejected \<Rightarrow> (s, [Set_audio_device device], Threw)
         | Resolved u \<Rightarrow> (s\<lparr>currentDevice := device\<rparr>, [Set_audio_device device], Returned))"

text \<open>The audio-input selector: the entry \<open>System Default\<close> with the option value
  \<open>default\<close>, then one entry per device with the device's name as option value.  Choosing
  an entry calls \<open>handleDeviceChange\<close> with the entry's option value.\<close>

datatype device_choice = System_default | Device string

definition device_options :: "settings \<Rightarrow> device_choice list" where
  "device_options s = System_default # map Device (devices s)"

fun option_value :: "device_choice \<Rightarrow> string" where
  "option_value System_default = ''default''"
| "option_value (Device device) = device"

definition choose_device ::
  "device_choice \<Rightarrow> unit promise \<Rightarrow> settings \<Rightarrow> settings \<times> command list \<times> completion"
where
  "choose_device c answer s = handleDeviceChange (option_value c) answer s"

text \<open>\<open>handleModelSelect\<close>; \<open>answer\<close> settles the one \<open>invoke\<close> the handler awaits.\<close>

definition handleModelSelect ::
  "string \<Rightarrow> unit promise \<Rightarrow> settings \<Rightarrow> settings \<times> command list \<times> completion"
where
  "handleModelSelect sz answer s =
     (case find (\<lambda>m. fst m = sz) (models s) of
        None \<Rightarrow> (s, [], Returned)
      | Some model \<Rightarrow>
          if snd (snd model) then
            (case answer of
               Rejected \<Rightarrow> (s, [Set_model_size sz], Threw)
             | Resolved u \<Rightarrow> (s\<lparr>selectedModel := sz\<rparr>, [Set_model_size sz], Returned))
          else
            (let s1 = s\<lparr>downloading := Some sz\<rparr>
             in case answer of
                  Rejected \<Rightarrow> (s1, [Download_model_size sz], Threw)
                | Resolved u \<Rightarrow> (s1\<lparr>selectedModel := sz\<rparr>, [Download_model_size sz], Returned)))"

text \<open>A model's button is disabled while that model is downloading, and a click on a
  disabled button does nothing; otherwise a click calls \<open>handleModelSelect\<close> with the
  model's id.\<close>

definition isDownloading :: "settings \<Rightarrow> string \<Rightarrow> bool" where
  "isDownloading s sz = (downloading s = Some sz)"

definition click_model ::
  "string \<Rightarrow> unit promise \<Rightarrow> settings \<Rightarrow> settings \<times> command list \<times> completion"
where
  "click_model sz answer s =
     (if isDownloading s sz then (s, [], Returned) else handleModelSelect sz answer s)"

text \<open>The percentage of a model's download bar in the settings panel.\<close>

definition settings_progress :: "settings \<Rightarrow> string \<Rightarrow> jsnum" where
  "settings_progress s sz =
     (case downloadProgress' s of
        None \<Rightarrow> Num 0
      | Some p \<Rightarrow>
          if size' p = sz
          then Math_round (js_mul (js_div (downloaded p) (total p)) 100)
          else Num 0)"

section \<open>States used as examples\<close>

text \<open>The overlay after one complete session that ended with a transcription.\<close>

definition done_ui :: ui where
  "done_ui = ui_steps \<lparr>ov = initial_overlay, tick_count = 0\<rparr>
     [Backend Recording_started, Backend Recording_stopped,
      Backend (Transcription_complete ''hi'')]"

text \<open>A settings panel whose model list holds one model that is not downloaded, and one
  whose device list holds a device named \<open>default\<close>.\<close>

definition small_missing :: settings where
  "small_missing = initial_settings\<lparr>models := [(''small'', ''Small'', False)]\<rparr>"

definition small_present :: settings where
  "small_present = initial_settings\<lparr>models := [(''small'', ''Small'', True)]\<rparr>"

definition usb_microphone :: settings where
  "usb_microphone = initial_settings\<lparr>devices := [''USB Microphone'']\<rparr>"

definition default_named :: settings where
  "default_named = initial_settings\<lparr>devices := [''default'']\<rparr>"

section \<open>Routing\<close>

text \<open>
  C10.  The app root shows the settings surface exactly when the path name is
  \<open>/settings\<close> and the overlay surface for every other path name; every path name gets
  one of the two surfaces and never both.
\<close>

theorem App_routing:
  "(App pathname = Settings_surface) = (pathname = ''/settings'')
   \<and> (App pathname = Overlay_surface) = (pathname \<noteq> ''/settings'')
   \<and> (App pathname = Settings_surface \<or> App pathname = Overlay_surface)
   \<and> \<not> (App pathname = Settings_surface \<and> App pathname = Overlay_surface)"
  by (simp add: App_def)

section \<open>The overlay state machine\<close>

lemma run_events_append: "run_events s (xs @ ys) = run_events (run_events s xs) ys"
  by (induction xs arbitrary: s) simp_all

lemma states_after_append:
  "states_after s (xs @ ys) = states_after s xs @ states_after (run_events s xs) ys"
  by (induction xs arbitrary: s) simp_all

lemma run_audio_levels:
  "run_events s (map Audio_level levels) =
     (if levels = [] then s else s\<lparr>audioLevel := last levels\<rparr>)"
  by (induction levels arbitrary: s) simp_all

lemma state_run_audio_levels: "state (run_events s (map Audio_level levels)) = state s"
  by (simp add: run_audio_levels)

lemma states_after_audio_levels:
  "states_after s (map Audio_level levels) = replicate (length levels) (state s)"
  by (induction levels arbitrary: s) simp_all

text \<open>No listener writes \<open>idle\<close>: a state that is \<open>idle\<close> after an event was \<open>idle\<close> before.\<close>

lemma listener_not_Idle: "state (overlay_listener e s) = Idle \<Longrightarrow> state s = Idle"
  by (cases e) (simp_all add: Let_def split: if_splits)

lemma run_events_not_Idle: "state s \<noteq> Idle \<Longrightarrow> state (run_events s es) \<noteq> Idle"
  by (induction es arbitrary: s) (auto dest: listener_not_Idle)

lemma ui_step_not_Idle: "state (ov (ui_step x u)) = Idle \<Longrightarrow> state (ov u) = Idle"
  by (cases x) (auto simp: Let_def dest: listener_not_Idle split: if_splits)

lemma ui_steps_not_Idle: "state (ov u) \<noteq> Idle \<Longrightarrow> state (ov (ui_steps u xs)) \<noteq> Idle"
  by (induction xs arbitrary: u) (auto dest: ui_step_not_Idle)

lemma done_ui_state: "state (ov done_ui) = Done"
  by (simp add: done_ui_def initial_overlay_def Let_def)

text \<open>
  C5.  From any overlay state, the events recording-started, any number of audio-level
  events, recording-stopped, transcription-started and then transcription-complete
  (or transcription-error) take the recording state through \<open>recording\<close> (kept by every
  audio-level event) and \<open>processing\<close> to \<open>done\<close> (or \<open>error\<close>); each of the named events
  maps every state to its one successor.
\<close>

theorem overlay_session_trace:
  "states_after s (Recording_started # map Audio_level levels
       @ [Recording_stopped, Transcription_started, Transcription_complete txt])
     = Recording # replicate (length levels) Recording @ [Processing, Processing, Done]
   \<and> states_after s (Recording_started # map Audio_level levels
       @ [Recording_stopped, Transcription_started, Transcription_error reason])
     = Recording # replicate (length levels) Recording @ [Processing, Processing, Error]
   \<and> state (run_events s (Recording_started # map Audio_level levels
       @ [Recording_stopped, Transcription_started, Transcription_complete txt])) = Done
   \<and> state (run_events s (Recording_started # map Audio_level levels
       @ [Recording_stopped, Transcription_started, Transcription_error reason])) = Error
   \<and> state (overlay_listener Recording_started s) = Recording
   \<and> state (overlay_listener (Audio_level l) s) = state s
   \<and> state (overlay_listener Recording_stopped s) = Processing
   \<and> state (overlay_listener Transcription_started s) = Processing
   \<and> state (overlay_listener (Transcription_complete txt) s) = Done
   \<and> state (overlay_listener (Transcription_error reason) s) = Error"
  by (simp add: states_after_append states_after_audio_levels run_events_append
      state_run_audio_levels)

text \<open>
  C2, as the claim states it, fails: a press followed at once by a release (no audio
  chunk in between) leaves the overlay in \<open>processing\<close>, not in \<open>idle\<close>.
\<close>

theorem short_tap_enters_processing:
  "states_after initial_overlay [Recording_started, Recording_stopped] = [Recording, Processing]
   \<and> state (run_events initial_overlay [Recording_started, Recording_stopped]) \<noteq> Idle"
  by (simp add: initial_overlay_def)

text \<open>
  C2, amended.  For every recording, however short (any number of audio-level events,
  none included), the recording-stopped event that follows the release puts the overlay
  in \<open>processing\<close> with the audio level reset to \<open>0\<close>; the overlay has no minimum-duration
  threshold, and no later sequence of events brings it back to \<open>idle\<close>.
\<close>

theorem recording_stopped_always_processing:
  "state (run_events s (Recording_started # map Audio_level levels @ [Recording_stopped]))
     = Processing
   \<and> audioLevel (run_events s (Recording_started # map Audio_level levels @ [Recording_stopped]))
     = 0
   \<and> state (run_events
        (run_events s (Recording_started # map Audio_level levels @ [Recording_stopped])) later)
     \<noteq> Idle"
proof -
  let ?s = "run_events s (Recording_started # map Audio_level levels @ [Recording_stopped])"
  have st: "state ?s = Processing"
    by (simp add: run_events_append)
  have lv: "audioLevel ?s = 0"
    by (simp add: run_events_append)
  from st have "state ?s \<noteq> Idle" by simp
  then have "state (run_events ?s later) \<noteq> Idle"
    by (rule run_events_not_Idle)
  with st lv show ?thesis by blast
qed

text \<open>
  C3, as the claim states it, fails: in the overlay that has reached \<open>done\<close>, no step
  (no event and no animation frame) gives \<open>idle\<close>; an animation frame keeps \<open>done\<close> and
  the next recording-started gives \<open>recording\<close>.
\<close>

theorem done_is_never_reset_to_idle:
  "state (ov done_ui) = Done
   \<and> \<not> (\<exists>x. state (ov (ui_step x done_ui)) = Idle)
   \<and> state (ov (ui_step Animation_frame done_ui)) = Done
   \<and> state (ov (ui_step (Backend Recording_started) done_ui)) = Recording"
proof -
  have d: "state (ov done_ui) = Done" by (rule done_ui_state)
  have "\<not> (\<exists>x. state (ov (ui_step x done_ui)) = Idle)"
    using d ui_step_not_Idle by fastforce
  moreover have "state (ov (ui_step Animation_frame done_ui)) = Done"
    using d by simp
  moreover have "state (ov (ui_step (Backend Recording_started) done_ui)) = Recording"
    by (simp add: Let_def)
  ultimately show ?thesis using d by blast
qed

text \<open>
  C3, amended.  Once the overlay is in \<open>done\<close> or \<open>error\<close>, no step and no sequence of
  steps of the overlay brings it to \<open>idle\<close>: an animation frame, the only timer, leaves
  the state as it is, and the next recording-started maps it to \<open>recording\<close> directly.
\<close>

theorem done_error_leave_only_by_event:
  assumes "state (ov u) = Done \<or> state (ov u) = Error"
  shows "state (ov (ui_step x u)) \<noteq> Idle
     \<and> state (ov (ui_steps u xs)) \<noteq> Idle
     \<and> state (ov (ui_step Animation_frame u)) = state (ov u)
     \<and> state (ov (ui_step (Backend Recording_started) u)) = Recording"
proof -
  from assms have n: "state (ov u) \<noteq> Idle" by auto
  have "state (ov (ui_step x u)) \<noteq> Idle"
    using n ui_step_not_Idle by blast
  moreover have "state (ov (ui_steps u xs)) \<noteq> Idle"
    using n by (rule ui_steps_not_Idle)
  moreover have "state (ov (ui_step Animation_frame u)) = state (ov u)"
    by simp
  moreover have "state (ov (ui_step (Backend Recording_started) u)) = Recording"
    by (simp add: Let_def)
  ultimately show ?thesis by blast
qed

theorem done_error_leave_only_by_event_witness:
  "(state (ov done_ui) = Done \<or> state (ov done_ui) = Error)
   \<and> state (ov (ui_step (Backend (Transcription_error ''x'')) done_ui)) \<noteq> Idle
   \<and> state (ov (ui_steps done_ui [Animation_frame, Backend Transcription_started])) \<noteq> Idle
   \<and> state (ov (ui_step Animation_frame done_ui)) = state (ov done_ui)
   \<and> state (ov (ui_step (Backend Recording_started) done_ui)) = Recording"
proof -
  have h: "state (ov done_ui) = Done \<or> state (ov done_ui) = Error"
    by (simp add: done_ui_state)
  from done_error_leave_only_by_event [OF h,
      of "Backend (Transcription_error ''x'')" "[Animation_frame, Backend Transcription_started]"]
    h
  show ?thesis by blast
qed

section \<open>Startup\<close>

text \<open>
  C6.  On mount the overlay invokes \<open>is_model_ready\<close> first, and it invokes
  \<open>download_whisper_model\<close> exactly when that query resolves to \<open>false\<close>: after \<open>true\<close>
  (and after a rejected query) the query is the only command, and the answer is stored
  as the model-ready flag.
\<close>

theorem mount_downloads_iff_not_ready:
  "hd (snd (overlay_mount answer s)) = Is_model_ready
   \<and> (Download_whisper_model \<in> set (snd (overlay_mount answer s))) = (answer = Resolved False)
   \<and> snd (overlay_mount (Resolved False) s) = [Is_model_ready, Download_whisper_model]
   \<and> snd (overlay_mount (Resolved True) s) = [Is_model_ready]
   \<and> snd (overlay_mount Rejected s) = [Is_model_ready]
   \<and> modelReady (fst (overlay_mount (Resolved ready) s)) = ready"
  by (cases answer) (auto simp: overlay_mount_def)

section \<open>The equalizer bars\<close>

lemma half_affine:
  "- 1 \<le> (y::real) \<Longrightarrow> y \<le> 1 \<Longrightarrow> 0 \<le> y * 0.5 + 0.5 \<and> y * 0.5 + 0.5 \<le> 1"
  by simp

lemma pulse_bounds: "0 \<le> sin (x::real) * 0.5 + 0.5 \<and> sin x * 0.5 + 0.5 \<le> 1"
  by (rule half_affine) simp_all

lemma pulse_scaled:
  "0 \<le> (p::real) \<Longrightarrow> p \<le> 1 \<Longrightarrow>
     6 \<le> 6 + p * 4 \<and> 6 + p * 4 \<le> 10 \<and> 0.5 \<le> 0.5 + p * 0.3 \<and> 0.5 + p * 0.3 \<le> 0.8"
  by simp

text \<open>
  C8.  For every audio level (any real number), every tick and every bar index, the bar
  style in the recording state has a height in \<open>[8, 36]\<close> and the opacity \<open>0.85\<close>; in the
  processing state the height is in \<open>[6, 10]\<close> and the opacity in \<open>[0.5, 0.8]\<close>.
\<close>

theorem getBarStyle_bounds:
  "8 \<le> height (getBarStyle Recording level tick index)
   \<and> height (getBarStyle Recording level tick index) \<le> 36
   \<and> opacity (getBarStyle Recording level tick index) = 0.85
   \<and> 6 \<le> height (getBarStyle Processing level tick index)
   \<and> height (getBarStyle Processing level tick index) \<le> 10
   \<and> 0.5 \<le> opacity (getBarStyle Processing level tick index)
   \<and> opacity (getBarStyle Processing level tick index) \<le> 0.8"
proof -
  define p where "p = sin (real tick / 15 + real index * 0.3) * 0.5 + 0.5"
  have p: "0 \<le> p" "p \<le> 1"
    unfolding p_def using pulse_bounds by blast+
  have proc: "getBarStyle Processing level tick index
      = \<lparr>height = 6 + p * 4, opacity = 0.5 + p * 0.3\<rparr>"
    by (simp add: getBarStyle_def Let_def p_def)
  have rec: "8 \<le> height (getBarStyle Recording level tick index)
     \<and> height (getBarStyle Recording level tick index) \<le> 36
     \<and> opacity (getBarStyle Recording level tick index) = 0.85"
    by (simp add: getBarStyle_def Let_def)
  from p have "6 \<le> 6 + p * 4 \<and> 6 + p * 4 \<le> 10 \<and> 0.5 \<le> 0.5 + p * 0.3 \<and> 0.5 + p * 0.3 \<le> 0.8"
    by (rule pulse_scaled)
  with proc rec show ?thesis by simp
qed

section \<open>Download progress and model readiness\<close>

lemma modelReady_listener: "modelReady (overlay_listener e s) = (modelReady s \<or> completes e)"
  by (cases e) (simp_all add: Let_def)

lemma modelReady_run_events:
  "modelReady (run_events s es) = (modelReady s \<or> (\<exists>e \<in> set es. completes e))"
  by (induction es arbitrary: s) (auto simp: modelReady_listener)

text \<open>On the events of a download job the listener's test \<open>downloaded >= total\<close> holds at
  the terminal event only.\<close>

lemma completes_terminal: "within_total e \<Longrightarrow> completes e = terminal e"
  by (cases e) auto

text \<open>
  C4.  For every download job, whose progress events report a downloaded count of at
  most the total, the overlay's model-ready flag is unchanged (so stays false) at every
  progress event with \<open>downloaded < total\<close> and is true at the terminal event
  \<open>downloaded = total\<close>; after any events of the job the flag is true exactly when it was
  true before or a terminal event is among them, so the terminal event is the only point
  at which readiness is gained.  The settings panel keeps its model list with the
  isDownloaded flags at every event with \<open>downloaded < total\<close>, and at the terminal event
  it re-reads the list with \<open>get_available_models\<close>.
\<close>

theorem ready_exactly_at_terminal_event:
  assumes "\<forall>e \<in> set es. within_total e" and "d \<le> t"
  shows "(d < t \<longrightarrow> modelReady (overlay_listener (Download_progress d t) s) = modelReady s)
     \<and> (d = t \<longrightarrow> modelReady (overlay_listener (Download_progress d t) s))
     \<and> modelReady (overlay_listener (Download_progress d t) s) = (modelReady s \<or> d = t)
     \<and> modelReady (run_events s es) = (modelReady s \<or> (\<exists>e \<in> set es. terminal e))
     \<and> (d < t \<longrightarrow> models (fst (settings_listener (sz, d, t) answer st)) = models st
                \<and> snd (settings_listener (sz, d, t) answer st) = [])
     \<and> (d = t \<longrightarrow> snd (settings_listener (sz, d, t) answer st) = [Get_available_models]
                \<and> models (fst (settings_listener (sz, d, t) (Resolved ms) st)) = ms)"
proof -
  have one: "modelReady (overlay_listener (Download_progress d t) s) = (modelReady s \<or> d = t)"
    using assms(2) by (auto simp: Let_def)
  have "(\<exists>e \<in> set es. completes e) = (\<exists>e \<in> set es. terminal e)"
    using assms(1) completes_terminal by blast
  then have run: "modelReady (run_events s es) = (modelReady s \<or> (\<exists>e \<in> set es. terminal e))"
    by (simp add: modelReady_run_events)
  have below: "d < t \<longrightarrow> models (fst (settings_listener (sz, d, t) answer st)) = models st
                \<and> snd (settings_listener (sz, d, t) answer st) = []"
    by (simp add: settings_listener_def Let_def)
  have at: "d = t \<longrightarrow> snd (settings_listener (sz, d, t) answer st) = [Get_available_models]
                \<and> models (fst (settings_listener (sz, d, t) (Resolved ms) st)) = ms"
    by (simp add: settings_listener_def Let_def)
  from one run below at show ?thesis by auto
qed

theorem ready_exactly_at_terminal_event_witness:
  "(\<forall>e \<in> set [Download_progress 0 500, Download_progress 250 500]. within_total e) = True
   \<and> (\<forall>e \<in> set [Download_progress 0 500, Download_progress 250 500, Download_progress 500 500].
        within_total e) = True
   \<and> (250::real) \<le> 500
   \<and> \<not> modelReady (run_events initial_overlay [Download_progress 0 500, Download_progress 250 500])
   \<and> modelReady (run_events initial_overlay
        [Download_progress 0 500, Download_progress 250 500, Download_progress 500 500])
   \<and> \<not> modelReady (overlay_listener (Download_progress 250 500) initial_overlay)
   \<and> modelReady (overlay_listener (Download_progress 500 500) initial_overlay)
   \<and> models (fst (settings_listener (''small'', 250, 500) Rejected small_missing))
       = models small_missing
   \<and> models (fst (settings_listener (''small'', 500, 500)
        (Resolved [(''small'', ''Small'', True)]) small_missing)) = [(''small'', ''Small'', True)]"
proof -
  have h2: "\<forall>e \<in> set [Download_progress 0 500, Download_progress 250 500]. within_total e"
    by simp
  have h3: "\<forall>e \<in> set [Download_progress 0 500, Download_progress 250 500,
      Download_progress 500 500]. within_total e"
    by simp
  have lt: "(250::real) \<le> 500" and eq: "(500::real) \<le> 500" by simp_all
  note a = ready_exactly_at_terminal_event [OF h2 lt, where s = initial_overlay
      and sz = "''small''" and answer = Rejected and st = small_missing]
  note b = ready_exactly_at_terminal_event [OF h3 eq, where s = initial_overlay
      and sz = "''small''" and st = small_missing and ms = "[(''small'', ''Small'', True)]"]
  from a have 1: "\<not> modelReady (run_events initial_overlay
      [Download_progress 0 500, Download_progress 250 500])"
    by (simp add: initial_overlay_def)
  from b have 2: "modelReady (run_events initial_overlay
        [Download_progress 0 500, Download_progress 250 500, Download_progress 500 500])"
    by (simp add: initial_overlay_def)
  from a have 3: "\<not> modelReady (overlay_listener (Download_progress 250 500) initial_overlay)"
    by (simp add: initial_overlay_def)
  from b have 4: "modelReady (overlay_listener (Download_progress 500 500) initial_overlay)"
    by simp
  from a have 5: "models (fst (settings_listener (''small'', 250, 500) Rejected small_missing))
       = models small_missing"
    by simp
  from b have 6: "models (fst (settings_listener (''small'', 500, 500)
        (Resolved [(''small'', ''Small'', True)]) small_missing)) = [(''small'', ''Small'', True)]"
    by simp
  from h2 h3 lt 1 2 3 4 5 6 show ?thesis by simp
qed

section \<open>The download percentage\<close>

lemma fl_half: "fl (1 / 2) = Num (1 / 2)"
  unfolding fl_def Let_def
  by (simp add: binexp_def binexp_up.simps binexp_down.simps pow2_def round_even_def)

lemma fl_50: "fl 50 = Num 50"
  unfolding fl_def Let_def
  by (simp add: binexp_def binexp_up.simps binexp_down.simps pow2_def round_even_def)

lemma fl_23_of_40: "fl (23 / 40) = Num (5179139571476070 / 2 ^ 53)"
  unfolding fl_def Let_def
  by (simp add: binexp_def binexp_up.simps binexp_down.simps pow2_def round_even_def)

lemma fl_23_of_40_times_100:
  "fl (5179139571476070 / 2 ^ 53 * 100) = Num (8092405580431359 / 2 ^ 47)"
  unfolding fl_def Let_def
  by (simp add: binexp_def binexp_up.simps binexp_down.simps pow2_def round_even_def)

lemma round_57: "round (8092405580431359 / 2 ^ 47 :: real) = 57"
  by (simp add: round_def)

text \<open>In doubles 23 of 40 is 57 percent, where the exact quotient 57.5 would round to 58.\<close>

lemma overlay_percent_23_of_40: "overlay_percent \<lparr>downloaded = 23, total = 40\<rparr> = Num 57"
proof -
  have "overlay_percent \<lparr>downloaded = 23, total = 40\<rparr>
      = Math_round (js_mul (fl (23 / 40)) 100)"
    by (simp add: overlay_percent_def js_truthy_def js_div_def)
  also have "\<dots> = Math_round (js_mul (Num (5179139571476070 / 2 ^ 53)) 100)"
    by (simp only: fl_23_of_40)
  also have "\<dots> = Math_round (fl (5179139571476070 / 2 ^ 53 * 100))"
    by (simp only: js_mul.simps)
  also have "\<dots> = Math_round (Num (8092405580431359 / 2 ^ 47))"
    by (simp only: fl_23_of_40_times_100)
  also have "\<dots> = Num 57"
    by (simp only: Math_round.simps round_57) simp
  finally show ?thesis .
qed

text \<open>
  C9.  The download percentage never divides by zero.  The overlay shows \<open>0\<close> when the
  total is \<open>0\<close> and \<open>Math.round(downloaded / total * 100)\<close> otherwise.  In the settings
  panel, after a progress event with a downloaded count that is not negative, the record
  that the listener keeps has a total other than \<open>0\<close>; the percentage is \<open>0\<close> when the
  reported total is \<open>0\<close>, \<open>Math.round(downloaded / total * 100)\<close> for the model of the event
  while \<open>downloaded < total\<close>, and \<open>0\<close> in every other case.
\<close>

theorem download_percent_guarded:
  "overlay_percent p =
     (if total p = 0 then Num 0
      else Math_round (js_mul (fl (downloaded p / total p)) 100))
   \<and> (0 \<le> d \<longrightarrow>
        settings_progress (fst (settings_listener (sz, d, t) answer s)) m
          = (if d < t \<and> sz = m then Math_round (js_mul (fl (d / t)) 100) else Num 0)
        \<and> (t = 0 \<longrightarrow> settings_progress (fst (settings_listener (sz, d, t) answer s)) m = Num 0)
        \<and> (\<forall>q. downloadProgress' (fst (settings_listener (sz, d, t) answer s)) = Some q
               \<longrightarrow> total q \<noteq> 0))"
proof -
  have ov: "overlay_percent p =
     (if total p = 0 then Num 0
      else Math_round (js_mul (fl (downloaded p / total p)) 100))"
    by (simp add: overlay_percent_def js_truthy_def js_div_def)
  have st: "settings_progress (fst (settings_listener (sz, d, t) answer s)) m
          = (if d < t \<and> sz = m then Math_round (js_mul (fl (d / t)) 100) else Num 0)"
    if "0 \<le> d"
    using that
    by (cases answer) (auto simp: settings_progress_def settings_listener_def Let_def js_div_def)
  have nz: "\<forall>q. downloadProgress' (fst (settings_listener (sz, d, t) answer s)) = Some q
               \<longrightarrow> total q \<noteq> 0"
    if "0 \<le> d"
    using that by (cases answer) (auto simp: settings_listener_def Let_def)
  from ov st nz show ?thesis by auto
qed

theorem download_percent_guarded_witness:
  "overlay_percent \<lparr>downloaded = 7, total = 0\<rparr> = Num 0
   \<and> overlay_percent \<lparr>downloaded = 250, total = 500\<rparr> = Num 50
   \<and> (0::real) \<le> 250
   \<and> settings_progress (fst (settings_listener (''small'', 250, 500) Rejected small_missing))
        ''small'' = Num 50
   \<and> (0::real) \<le> 7
   \<and> settings_progress (fst (settings_listener (''small'', 7, 0) Rejected small_missing))
        ''small'' = Num 0"
proof -
  have r: "Math_round (js_mul (fl (250 / 500)) 100) = Num 50"
    by (simp add: fl_half fl_50)
  have 1: "overlay_percent \<lparr>downloaded = 7, total = 0\<rparr> = Num 0"
    using download_percent_guarded [where p = "\<lparr>downloaded = 7, total = 0\<rparr>"] by simp
  have 2: "overlay_percent \<lparr>downloaded = 250, total = 500\<rparr> = Num 50"
    using download_percent_guarded [where p = "\<lparr>downloaded = 250, total = 500\<rparr>"] r by simp
  have 3: "settings_progress (fst (settings_listener (''small'', 250, 500) Rejected small_missing))
        ''small'' = Num 50"
    using download_percent_guarded [where d = 250 and t = 500 and sz = "''small''"
        and m = "''small''" and answer = Rejected and s = small_missing] r
    by simp
  have 4: "settings_progress (fst (settings_listener (''small'', 7, 0) Rejected small_missing))
        ''small'' = Num 0"
    using download_percent_guarded [where d = 7 and t = 0 and sz = "''small''"
        and m = "''small''" and answer = Rejected and s = small_missing]
    by simp
  from 1 2 3 4 show ?thesis by simp
qed

section \<open>Selecting a model\<close>

text \<open>
  C1, as the claim states it, fails: selecting the model \<open>small\<close>, which is not
  downloaded, returns normally, invokes \<open>download_model_size\<close> and records \<open>small\<close> as the
  selected model.
\<close>

theorem selecting_undownloaded_downloads:
  "handleModelSelect ''small'' (Resolved ()) small_missing
     = (small_missing\<lparr>downloading := Some ''small'', selectedModel := ''small''\<rparr>,
        [Download_model_size ''small''], Returned)"
  by (simp add: handleModelSelect_def small_missing_def initial_settings_def)

text \<open>
  C1, amended.  Selecting a model of the list whose downloaded flag is false never
  invokes \<open>set_model_size\<close>: the handler marks the model as downloading and invokes
  \<open>download_model_size\<close> for it; when that command resolves the handler records the model
  as selected and returns, and when it rejects the rejection leaves the handler and the
  selection is unchanged.
\<close>

theorem select_undownloaded:
  assumes "find (\<lambda>m. fst m = sz) (models s) = Some (sz, label, False)"
  shows "fst (snd (handleModelSelect sz answer s)) = [Download_model_size sz]
     \<and> Set_model_size sz \<notin> set (fst (snd (handleModelSelect sz answer s)))
     \<and> Set_model_size sz \<notin> set (fst (snd (click_model sz answer s)))
     \<and> downloading (fst (handleModelSelect sz answer s)) = Some sz
     \<and> handleModelSelect sz (Resolved ()) s
         = (s\<lparr>downloading := Some sz, selectedModel := sz\<rparr>, [Download_model_size sz], Returned)
     \<and> handleModelSelect sz Rejected s
         = (s\<lparr>downloading := Some sz\<rparr>, [Download_model_size sz], Threw)"
  using assms by (cases answer) (simp_all add: handleModelSelect_def click_model_def Let_def)

theorem select_undownloaded_witness:
  "find (\<lambda>m. fst m = ''small'') (models small_missing) = Some (''small'', ''Small'', False)
   \<and> fst (snd (handleModelSelect ''small'' Rejected small_missing)) = [Download_model_size ''small'']
   \<and> downloading (fst (handleModelSelect ''small'' Rejected small_missing)) = Some ''small''"
proof -
  have h: "find (\<lambda>m. fst m = ''small'') (models small_missing) = Some (''small'', ''Small'', False)"
    by (simp add: small_missing_def initial_settings_def)
  from select_undownloaded [OF h, of Rejected] h show ?thesis by simp
qed

text \<open>Selecting a model of the list whose downloaded flag is true invokes
  \<open>set_model_size\<close> and, when the command resolves, records the model as selected.\<close>

theorem select_downloaded:
  assumes "find (\<lambda>m. fst m = sz) (models s) = Some (sz, label, True)"
  shows "handleModelSelect sz (Resolved ()) s
         = (s\<lparr>selectedModel := sz\<rparr>, [Set_model_size sz], Returned)
     \<and> handleModelSelect sz Rejected s = (s, [Set_model_size sz], Threw)"
  using assms by (simp add: handleModelSelect_def)

theorem select_downloaded_witness:
  "find (\<lambda>m. fst m = ''small'') (models small_present) = Some (''small'', ''Small'', True)
   \<and> handleModelSelect ''small'' (Resolved ()) small_present
       = (small_present\<lparr>selectedModel := ''small''\<rparr>, [Set_model_size ''small''], Returned)"
proof -
  have h: "find (\<lambda>m. fst m = ''small'') (models small_present) = Some (''small'', ''Small'', True)"
    by (simp add: small_present_def initial_settings_def)
  from select_downloaded [OF h] h show ?thesis by simp
qed

section \<open>Selecting an audio device\<close>

text \<open>
  C7.  Choosing an entry of the audio-device selector should call \<open>set_audio_device\<close>
  with the chosen device's name.  For a device that is itself named \<open>default\<close> the code
  does not: the entry's option value is the one of \<open>System Default\<close>, so the command is
  called with null and null is recorded as the current device.
\<close>

theorem device_named_default_sends_null:
  "Device ''default'' \<in> set (device_options default_named)
   \<and> choose_device (Device ''default'') (Resolved ()) default_named
       = (default_named\<lparr>currentDevice := None\<rparr>, [Set_audio_device None], Returned)
   \<and> fst (snd (choose_device (Device ''default'') (Resolved ()) default_named))
       \<noteq> [Set_audio_device (Some ''default'')]"
  by (simp add: device_options_def default_named_def initial_settings_def choose_device_def
      handleDeviceChange_def)

text \<open>Choosing \<open>System Default\<close> sends null, and choosing a device with any other name
  than \<open>default\<close> sends exactly that name; the recorded current device is the value sent
  when the command resolves and is unchanged when it rejects.\<close>

theorem choose_device_sends_name:
  "choose_device System_default (Resolved ()) s
     = (s\<lparr>currentDevice := None\<rparr>, [Set_audio_device None], Returned)
   \<and> (name \<noteq> ''default'' \<longrightarrow>
        choose_device (Device name) (Resolved ()) s
          = (s\<lparr>currentDevice := Some name\<rparr>, [Set_audio_device (Some name)], Returned))
   \<and> fst (choose_device c Rejected s) = s
   \<and> fst (snd (choose_device c Rejected s)) = fst (snd (choose_device c (Resolved ()) s))
   \<and> snd (snd (choose_device c Rejected s)) = Threw"
  by (simp add: choose_device_def handleDeviceChange_def Let_def)

theorem choose_device_sends_name_witness:
  "Device ''USB Microphone'' \<in> set (device_options usb_microphone)
   \<and> ''USB Microphone'' \<noteq> ''default''
   \<and> choose_device (Device ''USB Microphone'') (Resolved ()) usb_microphone
       = (usb_microphone\<lparr>currentDevice := Some ''USB Microphone''\<rparr>,
          [Set_audio_device (Some ''USB Microphone'')], Returned)"
  using choose_device_sends_name [where s = usb_microphone and name = "''USB Microphone''"]
  by (simp add: device_options_def usb_microphone_def initial_settings_def)

end
